theory Spec2Isabelle
  imports Main
begin

section \<open>Python values used by tools.py\<close>

text \<open>
  The module works on Python \<^verbatim>\<open>str\<close> and \<^verbatim>\<open>list\<close> values. A text is a
  \<^typ>\<open>string\<close>; a character of the model is one \<^typ>\<open>char\<close>, read as the code point
  of the same number, so the model covers texts whose code points are below 256. A
  one-character Python string is the singleton list \<open>[c]\<close>. Python integers are
  \<^typ>\<open>int\<close>. Every \<^verbatim>\<open>raise\<close> of the interpreter is a value \<open>Inl e\<close>; a value
  that the function returns is \<open>Inr v\<close>.
\<close>

datatype error = IndexError | TypeError | KeyError | ValueError

text \<open>
  Subscription \<^verbatim>\<open>xs[i]\<close> of a list or a text: an index from \<open>- len\<close> up to
  \<open>- 1\<close> counts from the end, and an index outside \<open>[- len, len)\<close> raises
  \<^verbatim>\<open>IndexError\<close>.
\<close>

definition py_getitem :: "'a list \<Rightarrow> int \<Rightarrow> error + 'a" where
  "py_getitem xs i =
     (if 0 \<le> i \<and> i < int (length xs) then Inr (xs ! nat i)
      else if - int (length xs) \<le> i \<and> i < 0 then Inr (xs ! nat (int (length xs) + i))
      else Inl IndexError)"

text \<open>Item assignment \<^verbatim>\<open>xs[i] = v\<close> on a list, with the same index rule.\<close>

definition py_setitem :: "'a list \<Rightarrow> int \<Rightarrow> 'a \<Rightarrow> error + 'a list" where
  "py_setitem xs i v =
     (if 0 \<le> i \<and> i < int (length xs) then Inr (xs[nat i := v])
      else if - int (length xs) \<le> i \<and> i < 0 then Inr (xs[nat (int (length xs) + i) := v])
      else Inl IndexError)"

text \<open>\<^verbatim>\<open>range(n)\<close>: the integers \<open>0, ..., n - 1\<close>, none when \<open>n \<le> 0\<close>.\<close>

definition py_range :: "int \<Rightarrow> int list" where
  "py_range n = map int [0 ..< nat n]"

subsection \<open>\<^verbatim>\<open>str.splitlines\<close>, \<^verbatim>\<open>str.join\<close>, \<^verbatim>\<open>str.lower\<close>\<close>

text \<open>
  The line boundaries of \<^verbatim>\<open>str.splitlines\<close> below code point 256: line feed, vertical
  tab, form feed, carriage return, the file, group and record separators and NEL. A
  carriage return followed by a line feed is one boundary.
\<close>

definition is_linebreak :: "char \<Rightarrow> bool" where
  "is_linebreak c \<longleftrightarrow>
     c \<in> set [CHR 0x0A, CHR 0x0B, CHR 0x0C, CHR 0x0D, CHR 0x1C, CHR 0x1D, CHR 0x1E, CHR 0x85]"

text \<open>
  \<open>splitlines_from cur s\<close> scans \<open>s\<close> with the line read so far in \<open>cur\<close>. A boundary
  closes the line, also an empty one; at the end of the text the last line is kept only
  when it is not empty, so a final boundary opens no further line.
\<close>

fun splitlines_from :: "string \<Rightarrow> string \<Rightarrow> string list" where
  "splitlines_from cur [] = (if cur = [] then [] else [cur])"
| "splitlines_from cur (c # cs) =
     (if is_linebreak c then
        (case cs of
           [] \<Rightarrow> cur # splitlines_from [] cs
         | d # ds \<Rightarrow>
             if c = CHR 0x0D \<and> d = CHR 0x0A then cur # splitlines_from [] ds
             else cur # splitlines_from [] cs)
      else splitlines_from (cur @ [c]) cs)"

definition splitlines :: "string \<Rightarrow> string list" where
  "splitlines s = splitlines_from [] s"

text \<open>\<^verbatim>\<open>"\n".join(rows)\<close>.\<close>

fun join_nl :: "string list \<Rightarrow> string" where
  "join_nl [] = []"
| "join_nl [r] = r"
| "join_nl (r # rs) = r @ CHR 0x0A # join_nl rs"

text \<open>
  \<^verbatim>\<open>str.lower\<close> on code points below 256: the letters A to Z and the accented capitals
  0xC0 to 0xDE (the multiplication sign 0xD7 apart) move up by 32.
\<close>

definition lower_char :: "char \<Rightarrow> char" where
  "lower_char c =
     (let n = (of_char c :: nat) in
      if (65 \<le> n \<and> n \<le> 90) \<or> (192 \<le> n \<and> n \<le> 222 \<and> n \<noteq> 215) then char_of (n + 32) else c)"

definition py_lower :: "string \<Rightarrow> string" where
  "py_lower s = map lower_char s"

subsection \<open>\<^verbatim>\<open>str(int)\<close>, \<^verbatim>\<open>int(str)\<close>, \<^verbatim>\<open>str.split\<close>\<close>

definition digit_char :: "nat \<Rightarrow> char" where
  "digit_char n = char_of (48 + n)"

definition is_digit :: "char \<Rightarrow> bool" where
  "is_digit c \<longleftrightarrow> 48 \<le> (of_char c :: nat) \<and> (of_char c :: nat) \<le> 57"

definition digit_val :: "char \<Rightarrow> nat" where
  "digit_val c = of_char c - 48"

fun digits_of :: "nat \<Rightarrow> string" where
  "digits_of n = (if n < 10 then [digit_char n] else digits_of (n div 10) @ [digit_char (n mod 10)])"

declare digits_of.simps [simp del]

text \<open>\<^verbatim>\<open>str(i)\<close> of an integer: its decimal digits, after a minus sign when negative.\<close>

definition str_int :: "int \<Rightarrow> string" where
  "str_int i = (if i < 0 then CHR ''-'' # digits_of (nat (- i)) else digits_of (nat i))"

text \<open>
  \<^verbatim>\<open>int(s)\<close> of a text, base ten: white space around the number is dropped, one sign
  may lead, and the digits may be grouped by single underscores between digits.
  Anything else raises \<^verbatim>\<open>ValueError\<close>.
\<close>

definition is_space :: "char \<Rightarrow> bool" where
  "is_space c \<longleftrightarrow>
     c \<in> set [CHR 0x09, CHR 0x0A, CHR 0x0B, CHR 0x0C, CHR 0x0D, CHR 0x1C, CHR 0x1D, CHR 0x1E,
               CHR 0x1F, CHR 0x20, CHR 0x85, CHR 0xA0]"

definition strip :: "string \<Rightarrow> string" where
  "strip s = rev (dropWhile is_space (rev (dropWhile is_space s)))"

fun parse_digits :: "nat \<Rightarrow> bool \<Rightarrow> string \<Rightarrow> nat option" where
  "parse_digits acc after_digit [] = (if after_digit then Some acc else None)"
| "parse_digits acc after_digit (c # cs) =
     (if is_digit c then parse_digits (10 * acc + digit_val c) True cs
      else if c = CHR ''_'' \<and> after_digit then parse_digits acc False cs
      else None)"

definition int_str :: "string \<Rightarrow> error + int" where
  "int_str s =
     (case strip s of
        [] \<Rightarrow> Inl ValueError
      | c # cs \<Rightarrow>
          if c = CHR ''-'' then
            (case parse_digits 0 False cs of None \<Rightarrow> Inl ValueError | Some n \<Rightarrow> Inr (- int n))
          else if c = CHR ''+'' then
            (case parse_digits 0 False cs of None \<Rightarrow> Inl ValueError | Some n \<Rightarrow> Inr (int n))
          else
            (case parse_digits 0 False (c # cs) of None \<Rightarrow> Inl ValueError | Some n \<Rightarrow> Inr (int n)))"

text \<open>\<^verbatim>\<open>s.split(sep)\<close> for a separator of one character.\<close>

fun split_from :: "char \<Rightarrow> string \<Rightarrow> string \<Rightarrow> string list" where
  "split_from sep cur [] = [cur]"
| "split_from sep cur (c # cs) =
     (if c = sep then cur # split_from sep [] cs else split_from sep (cur @ [c]) cs)"

definition split_char :: "char \<Rightarrow> string \<Rightarrow> string list" where
  "split_char sep s = split_from sep [] s"

section \<open>The grid\<close>

text \<open>
  \<^verbatim>\<open>class StringGrid\<close>: the text, the length of its first line and the number of its
  lines. The constructor reads \<^verbatim>\<open>splitlines()[0]\<close>, which raises \<^verbatim>\<open>IndexError\<close>
  on a text with no line.
\<close>

record StringGrid =
  grid :: string
  width :: int
  height :: int

definition StringGrid_init :: "string \<Rightarrow> error + StringGrid" where
  "StringGrid_init g =
     (case py_getitem (splitlines g) 0 of
        Inl e \<Rightarrow> Inl e
      | Inr row0 \<Rightarrow>
          Inr \<lparr>grid = g, width = int (length row0), height = int (length (splitlines g))\<rparr>)"

text \<open>
  \<^verbatim>\<open>grab(x, y)\<close> is \<^verbatim>\<open>self.grid.splitlines()[y][x]\<close>: the row is taken first, then the
  column, each by Python subscription; the result is a one-character text.
\<close>

definition grab :: "StringGrid \<Rightarrow> int \<Rightarrow> int \<Rightarrow> error + string" where
  "grab x xc y =
     (case py_getitem (splitlines (grid x)) y of
        Inl e \<Rightarrow> Inl e
      | Inr row \<Rightarrow> (case py_getitem row xc of Inl e \<Rightarrow> Inl e | Inr c \<Rightarrow> Inr [c]))"

text \<open>
  \<^verbatim>\<open>find_grid_item\<close>: the inner loop over the columns \<open>x2\<close> of one row, the outer loop
  over the rows \<open>y\<close>. The first cell equal to \<open>item\<close> ends both loops with
  \<open>Some (x2, y)\<close>; \<^verbatim>\<open>None\<close> is returned after the last row. An error of \<open>grab\<close>
  leaves the function.
\<close>

fun find_in_row :: "StringGrid \<Rightarrow> string \<Rightarrow> int \<Rightarrow> int list \<Rightarrow> error + (int \<times> int) option" where
  "find_in_row x item y [] = Inr None"
| "find_in_row x item y (x2 # rest) =
     (case grab x x2 y of
        Inl e \<Rightarrow> Inl e
      | Inr c \<Rightarrow> if c = item then Inr (Some (x2, y)) else find_in_row x item y rest)"

fun find_in_rows :: "StringGrid \<Rightarrow> string \<Rightarrow> int list \<Rightarrow> error + (int \<times> int) option" where
  "find_in_rows x item [] = Inr None"
| "find_in_rows x item (y # ys) =
     (case find_in_row x item y (py_range (width x)) of
        Inl e \<Rightarrow> Inl e
      | Inr (Some p) \<Rightarrow> Inr (Some p)
      | Inr None \<Rightarrow> find_in_rows x item ys)"

definition find_grid_item :: "StringGrid \<Rightarrow> string \<Rightarrow> error + (int \<times> int) option" where
  "find_grid_item x item = find_in_rows x item (py_range (height x))"

text \<open>\<^verbatim>\<open>bounds\<close>: the text \<^verbatim>\<open>f"{x.width}x{x.height}"\<close>.\<close>

definition bounds :: "StringGrid \<Rightarrow> string" where
  "bounds x = str_int (width x) @ CHR ''x'' # str_int (height x)"

text \<open>
  The first statements of \<^verbatim>\<open>swipe\<close>. \<open>cells\<close> is \<^verbatim>\<open>list(row)\<close>: one
  one-character text per cell. \<open>parse_bounds\<close> is
  \<^verbatim>\<open>w, h = map(int, bounds(x).split("x"))\<close>; unpacking anything but two integers
  raises \<^verbatim>\<open>ValueError\<close>. \<open>directs\<close> is the dictionary of steps, and \<open>deltas\<close> the
  \<^verbatim>\<open>if\<close> that assigns \<open>dx\<close> or \<open>dy\<close> from it; a key the dictionary lacks raises
  \<^verbatim>\<open>KeyError\<close>.
\<close>

definition cells :: "string \<Rightarrow> string list" where
  "cells row = map (\<lambda>c. [c]) row"

definition parse_bounds :: "StringGrid \<Rightarrow> error + (int \<times> int)" where
  "parse_bounds x =
     (case map int_str (split_char CHR ''x'' (bounds x)) of
        [Inr w, Inr h] \<Rightarrow> Inr (w, h)
      | _ \<Rightarrow> Inl ValueError)"

definition directs :: "string \<Rightarrow> int option" where
  "directs = map_of [(''left'', - 1), (''right'', 1), (''up'', - 1), (''down'', 1)]"

definition deltas :: "string \<Rightarrow> error + (int \<times> int)" where
  "deltas direction =
     (if direction \<in> set [''left'', ''right'']
      then (case directs direction of None \<Rightarrow> Inl KeyError | Some d \<Rightarrow> Inr (d, 0))
      else (case directs direction of None \<Rightarrow> Inl KeyError | Some d \<Rightarrow> Inr (0, d)))"

text \<open>
  The assignment \<^verbatim>\<open>rx[i][j] = v\<close>: the row \<open>rx[i]\<close> is fetched, its item \<open>j\<close> is
  assigned, and the change shows in \<open>rx\<close> because the row is the object the outer list
  holds. The rows of \<open>rx\<close> are separate lists, so no other row changes.
\<close>

definition set_cell :: "string list list \<Rightarrow> int \<Rightarrow> int \<Rightarrow> string \<Rightarrow> error + string list list" where
  "set_cell rx i j v =
     (case py_getitem rx i of
        Inl e \<Rightarrow> Inl e
      | Inr row \<Rightarrow> (case py_setitem row j v of Inl e \<Rightarrow> Inl e | Inr row' \<Rightarrow> py_setitem rx i row'))"

text \<open>
  \<^verbatim>\<open>swipe\<close>, statement by statement. The located pair \<open>item\<close> is \<open>(column, row)\<close> as
  \<open>find_grid_item\<close> returns it; \<open>swipe\<close> adds \<open>dy\<close> to \<open>item[0]\<close> and \<open>dx\<close> to
  \<open>item[1]\<close>, compares the first sum with \<open>h\<close> and the second with \<open>w\<close>, and uses the
  first as the row index of \<open>rx\<close>. The result is the joined text, or the text \<open>OOB\<close>.
\<close>

definition swipe :: "StringGrid \<Rightarrow> string \<Rightarrow> string \<Rightarrow> string \<Rightarrow> error + string" where
  "swipe x character direction blankness =
     (let rx = map cells (splitlines (grid x));
          direction' = py_lower direction
      in case find_grid_item x character of
           Inl e \<Rightarrow> Inl e
         | Inr item \<Rightarrow>
            (case parse_bounds x of
               Inl e \<Rightarrow> Inl e
             | Inr (w, h) \<Rightarrow>
                (case deltas direction' of
                   Inl e \<Rightarrow> Inl e
                 | Inr (dx, dy) \<Rightarrow>
                    (case item of
                       None \<Rightarrow> Inl TypeError
                     | Some (item0, item1) \<Rightarrow>
                        (let new_x = item0 + dy; new_y = item1 + dx
                         in if new_x < 0 \<or> new_x \<ge> h \<or> new_y < 0 \<or> new_y \<ge> w then Inr ''OOB''
                            else (case set_cell rx new_x new_y character of
                                    Inl e \<Rightarrow> Inl e
                                  | Inr rx1 \<Rightarrow>
                                     (case set_cell rx1 item0 item1 blankness of
                                        Inl e \<Rightarrow> Inl e
                                      | Inr rx2 \<Rightarrow> Inr (join_nl (map concat rx2)))))))))"

text \<open>
  \<^verbatim>\<open>look\<close>: \<open>walk\<close> is the loop over the letters of the path, on the pair
  \<open>(ch[0], ch[1])\<close>; a letter other than U, D, L, R raises \<^verbatim>\<open>ValueError\<close>.
  \<^verbatim>\<open>list(None)\<close> raises \<^verbatim>\<open>TypeError\<close>. The test after the loop is strict: a coordinate equal to the width or the height passes it.
\<close>

fun walk :: "int \<times> int \<Rightarrow> string \<Rightarrow> error + int \<times> int" where
  "walk ch [] = Inr ch"
| "walk (ch0, ch1) (letter # rest) =
     (if letter = CHR ''U'' then walk (ch0, ch1 - 1) rest
      else if letter = CHR ''D'' then walk (ch0, ch1 + 1) rest
      else if letter = CHR ''L'' then walk (ch0 - 1, ch1) rest
      else if letter = CHR ''R'' then walk (ch0 + 1, ch1) rest
      else Inl ValueError)"

definition look :: "StringGrid \<Rightarrow> string \<Rightarrow> string \<Rightarrow> error + string" where
  "look x character lookwhere =
     (case find_grid_item x character of
        Inl e \<Rightarrow> Inl e
      | Inr None \<Rightarrow> Inl TypeError
      | Inr (Some start) \<Rightarrow>
         (case walk start lookwhere of
            Inl e \<Rightarrow> Inl e
          | Inr (ch0, ch1) \<Rightarrow>
              if ch0 < 0 \<or> ch0 > width x \<or> ch1 < 0 \<or> ch1 > height x then Inr ''OOB''
              else grab x ch0 ch1))"

section \<open>The sequence helpers\<close>

text \<open>
  The values \<^verbatim>\<open>select\<close> meets: an item or a flag is an integer, a boolean or a text;
  the sequence \<open>x\<close> is a text, a list or a tuple. Iterating a text gives its
  one-character texts.
\<close>

datatype pyval = PInt int | PBool bool | PStr string

datatype pyseq = Text string | ListOf "pyval list" | TupleOf "pyval list"

text \<open>
  What \<^verbatim>\<open>select\<close> returns: a sequence, or the \<^verbatim>\<open>IndexError\<close> object that its last
  line builds and hands back with \<^verbatim>\<open>return\<close>.
\<close>

datatype retval = Selected pyseq | ExcInstance error string

fun items :: "pyseq \<Rightarrow> pyval list" where
  "items (Text s) = map (\<lambda>c. PStr [c]) s"
| "items (ListOf vs) = vs"
| "items (TupleOf vs) = vs"

definition py_len :: "pyseq \<Rightarrow> nat" where
  "py_len x = length (items x)"

text \<open>\<^verbatim>\<open>int(v)\<close>, \<^verbatim>\<open>str(v)\<close>, \<^verbatim>\<open>v >= 1\<close> and \<^verbatim>\<open>type(v)(v)\<close> on these values.\<close>

fun py_int :: "pyval \<Rightarrow> error + int" where
  "py_int (PInt i) = Inr i"
| "py_int (PBool b) = Inr (if b then 1 else 0)"
| "py_int (PStr s) = int_str s"

fun py_str :: "pyval \<Rightarrow> string" where
  "py_str (PInt i) = str_int i"
| "py_str (PBool b) = (if b then ''True'' else ''False'')"
| "py_str (PStr s) = s"

fun ge_one :: "pyval \<Rightarrow> error + bool" where
  "ge_one (PInt i) = Inr (i \<ge> 1)"
| "ge_one (PBool b) = Inr b"
| "ge_one (PStr s) = Inl TypeError"

fun same_type :: "pyval \<Rightarrow> pyval" where
  "same_type (PInt i) = PInt i"
| "same_type (PBool b) = PBool b"
| "same_type (PStr s) = PStr s"

text \<open>
  The first loop of \<^verbatim>\<open>select\<close>, \<^verbatim>\<open>matches[index] = int(item)\<close>, writes into the
  caller's list. \<open>convert_flags\<close> returns the error that stopped the loop, if any, and
  the list as the loop left it: the entries before the failing one are already
  integers.
\<close>

fun convert_flags :: "pyval list \<Rightarrow> error option \<times> pyval list" where
  "convert_flags [] = (None, [])"
| "convert_flags (v # vs) =
     (case py_int v of
        Inl e \<Rightarrow> (Some e, v # vs)
      | Inr n \<Rightarrow> (case convert_flags vs of (r, vs') \<Rightarrow> (r, PInt n # vs')))"

text \<open>The second loop: \<^verbatim>\<open>p += str(item)\<close> for every item whose flag is at least 1.\<close>

fun gather :: "pyval list \<Rightarrow> pyval list \<Rightarrow> error + string" where
  "gather [] flags = Inr []"
| "gather (item # rest) flags =
     (case flags of
        [] \<Rightarrow> Inl IndexError
      | f # fs \<Rightarrow>
         (case ge_one f of
            Inl e \<Rightarrow> Inl e
          | Inr b \<Rightarrow>
             (case gather rest fs of
                Inl e \<Rightarrow> Inl e
              | Inr p \<Rightarrow> Inr ((if b then py_str item else []) @ p))))"

text \<open>
  \<^verbatim>\<open>p = type(x)(p)\<close> and the loop after it. A text is returned as it is. A list of
  the characters of \<open>p\<close> has its first entries overwritten, index by index, with the
  items of \<^verbatim>\<open>x[:len(p)]\<close>. A tuple refuses the first such assignment with
  \<^verbatim>\<open>TypeError\<close>.
\<close>

fun rebuild :: "pyseq \<Rightarrow> string \<Rightarrow> error + pyseq" where
  "rebuild (Text s) p = Inr (Text p)"
| "rebuild (ListOf vs) p =
     Inr (ListOf (fold (\<lambda>(index, item) q. q[index := same_type item])
                     (enumerate 0 (take (length p) vs)) (map (\<lambda>c. PStr [c]) p)))"
| "rebuild (TupleOf vs) p =
     (if take (length p) vs = [] then Inr (TupleOf (map (\<lambda>c. PStr [c]) p)) else Inl TypeError)"

text \<open>
  \<^verbatim>\<open>select\<close> returns its result, or raises, and leaves the list \<open>matches\<close> in the
  state of the second component.
\<close>

definition select :: "pyseq \<Rightarrow> pyval list \<Rightarrow> (error + retval) \<times> pyval list" where
  "select x matches =
     (if length matches = py_len x then
        (case convert_flags matches of
           (Some e, matches') \<Rightarrow> (Inl e, matches')
         | (None, matches') \<Rightarrow>
            (case gather (items x) matches' of
               Inl e \<Rightarrow> (Inl e, matches')
             | Inr p \<Rightarrow>
                (case rebuild x p of
                   Inl e \<Rightarrow> (Inl e, matches')
                 | Inr r \<Rightarrow> (Inr (Selected r), matches'))))
      else (Inr (ExcInstance IndexError ''Length of matches not length of x''), matches))"

text \<open>
  \<^verbatim>\<open>take_while\<close> is a generator; the model is the list of the items it yields when it
  is run to its end. The \<^verbatim>\<open>break\<close> ends the loop at the first item that fails the
  condition.
\<close>

fun take_while :: "'a list \<Rightarrow> ('a \<Rightarrow> bool) \<Rightarrow> 'a list" where
  "take_while [] condition = []"
| "take_while (item # rest) condition =
     (if \<not> condition item then [] else item # take_while rest condition)"

section \<open>Notions used to state the properties\<close>

text \<open>
  A grid is rectangular when every line of its text has the declared width. The
  constructor does not check this; the properties that need it assume it.
\<close>

definition rectangular :: "StringGrid \<Rightarrow> bool" where
  "rectangular x \<longleftrightarrow> list_all (\<lambda>row. int (length row) = width x) (splitlines (grid x))"

section \<open>Facts about the text functions\<close>





declare splitlines_from.simps(2) [simp del]





















section \<open>Facts about subscription and ranges\<close>

lemma py_getitem_in_set: "py_getitem xs i = Inr v \<Longrightarrow> v \<in> set xs"
  by (auto simp: py_getitem_def split: if_splits)

lemma py_getitem_nonneg:
  "0 \<le> i \<Longrightarrow> py_getitem xs i = (if i < int (length xs) then Inr (xs ! nat i) else Inl IndexError)"
  by (simp add: py_getitem_def)

lemma py_getitem_error: "py_getitem xs i = Inl e \<Longrightarrow> e = IndexError"
  by (auto simp: py_getitem_def split: if_splits)



lemma py_range_set: "set (py_range n) = {i. 0 \<le> i \<and> i < n}"
proof -
  have "int ` {0..<nat n} = {i. 0 \<le> i \<and> i < n}"
  proof (intro equalityI subsetI)
    fix i assume "i \<in> int ` {0..<nat n}"
    then show "i \<in> {i. 0 \<le> i \<and> i < n}" by auto
  next
    fix i assume "i \<in> {i. 0 \<le> i \<and> i < n}"
    then have "nat i \<in> {0..<nat n}" "i = int (nat i)" by auto
    then show "i \<in> int ` {0..<nat n}" by (rule_tac image_eqI) 
  qed
  then show ?thesis by (simp add: py_range_def)
qed

lemma py_range_length: "length (py_range n) = nat n"
  by (simp add: py_range_def)

lemma py_range_nth: "i < nat n \<Longrightarrow> py_range n ! i = int i"
  by (simp add: py_range_def)

section \<open>Properties of the grid operations\<close>

subsection \<open>Construction and lookup\<close>

lemma init_fields:
  assumes "StringGrid_init g = Inr x"
  shows "grid x = g" and "splitlines g \<noteq> []"
    and "width x = int (length (hd (splitlines g)))"
    and "height x = int (length (splitlines g))"
  using assms
  by (auto simp: StringGrid_init_def py_getitem_def hd_conv_nth split: if_splits)


lemma rectangular_row:
  "rectangular x \<Longrightarrow> k < length (splitlines (grid x)) \<Longrightarrow> int (length (splitlines (grid x) ! k)) = width x"
  by (simp add: rectangular_def list_all_length)

lemma grab_rectangular:
  assumes "StringGrid_init g = Inr x" and "rectangular x"
  shows "if col < - width x \<or> width x \<le> col \<or> row < - height x \<or> height x \<le> row
         then grab x col row = Inl IndexError
         else grab x col row =
                Inr [splitlines g ! nat (if row < 0 then height x + row else row)
                                  ! nat (if col < 0 then width x + col else col)]"
proof -
  let ?rows = "splitlines g"
  have g: "grid x = g" and h: "height x = int (length ?rows)"
    using assms(1) by (rule init_fields)+
  have w: "int (length (?rows ! k)) = width x" if "k < length ?rows" for k
    using rectangular_row [OF assms(2)] that g by simp
  show ?thesis
  proof (cases "row < - height x \<or> height x \<le> row")
    case True
    then show ?thesis by (auto simp: grab_def py_getitem_def g h)
  next
    case False
    define k where "k = nat (if row < 0 then height x + row else row)"
    have k: "k < length ?rows" using False h by (auto simp: k_def)
    have row: "py_getitem ?rows row = Inr (?rows ! k)"
      using False h by (auto simp: py_getitem_def k_def)
    show ?thesis
      using False w [OF k] row
      by (auto simp: grab_def g py_getitem_def k_def [symmetric])
  qed
qed

text \<open>
  Claim C3, as the code has it. On a rectangular grid \<open>grab\<close> raises
  \<^verbatim>\<open>IndexError\<close> exactly when the column is at least the width or below minus the
  width, or the row is at least the height or below minus the height. A negative
  column from \<open>- width\<close> on, or a negative row from \<open>- height\<close> on, is not an error:
  it counts from the end, and \<open>grab\<close> returns the character of row \<open>height + row\<close>
  and column \<open>width + col\<close>.
\<close>

theorem grab_index_error_iff:
  assumes "StringGrid_init g = Inr x" and "rectangular x"
  shows "if col < - width x \<or> width x \<le> col \<or> row < - height x \<or> height x \<le> row
         then grab x col row = Inl IndexError
         else grab x col row =
                Inr [splitlines g ! nat (if row < 0 then height x + row else row)
                                  ! nat (if col < 0 then width x + col else col)]"
  using assms by (rule grab_rectangular)

theorem grab_index_error_iff_witness:
  "StringGrid_init ''ab\<newline>cd'' = Inr \<lparr>grid = ''ab\<newline>cd'', width = 2, height = 2\<rparr> \<and>
   rectangular \<lparr>grid = ''ab\<newline>cd'', width = 2, height = 2\<rparr> \<and>
   grab \<lparr>grid = ''ab\<newline>cd'', width = 2, height = 2\<rparr> 2 0 = Inl IndexError"
proof -
  have i: "StringGrid_init ''ab\<newline>cd'' = Inr \<lparr>grid = ''ab\<newline>cd'', width = 2, height = 2\<rparr>"
    by code_simp
  have r: "rectangular \<lparr>grid = ''ab\<newline>cd'', width = 2, height = 2\<rparr>" by code_simp
  from grab_index_error_iff [OF i r, of 2 0] i r show ?thesis by simp
qed

text \<open>
  The claim as the specification words it makes every negative coordinate an error. On
  the grid of the rows \<open>ab\<close> and \<open>cd\<close>, \<open>grab (- 1) (- 1)\<close> returns \<open>d\<close> and
  \<open>grab (- 2) 0\<close> returns \<open>a\<close>.
\<close>

theorem grab_negative_index_returns:
  "StringGrid_init ''ab\<newline>cd'' = Inr \<lparr>grid = ''ab\<newline>cd'', width = 2, height = 2\<rparr> \<and>
   grab \<lparr>grid = ''ab\<newline>cd'', width = 2, height = 2\<rparr> (- 1) (- 1) = Inr ''d'' \<and>
   grab \<lparr>grid = ''ab\<newline>cd'', width = 2, height = 2\<rparr> (- 2) 0 = Inr ''a''"
  by code_simp

subsection \<open>Locating a character\<close>

lemma find_in_row_eq:
  assumes "py_getitem (splitlines (grid x)) y = Inr row"
    and "\<forall>c\<in>set cs. 0 \<le> c \<and> c < int (length row)"
  shows "find_in_row x item y cs =
           Inr (map_option (\<lambda>c. (c, y)) (List.find (\<lambda>c. [row ! nat c] = item) cs))"
  using assms(2)
proof (induction cs)
  case Nil
  then show ?case by simp
next
  case (Cons c cs)
  then have "0 \<le> c" "c < int (length row)" by auto
  then have "grab x c y = Inr [row ! nat c]"
    by (simp add: grab_def assms(1) py_getitem_nonneg)
  with Cons show ?case by simp
qed

lemma find_in_rows_eq:
  assumes "\<forall>y\<in>set ys. 0 \<le> y \<and> y < int (length (splitlines (grid x)))"
    and "\<forall>row\<in>set (splitlines (grid x)). int (length row) = width x"
  shows "find_in_rows x item ys =
           Inr (case List.find (\<lambda>y. List.find (\<lambda>c. [splitlines (grid x) ! nat y ! nat c] = item)
                                     (py_range (width x)) \<noteq> None) ys of
                  None \<Rightarrow> None
                | Some y \<Rightarrow> map_option (\<lambda>c. (c, y))
                    (List.find (\<lambda>c. [splitlines (grid x) ! nat y ! nat c] = item) (py_range (width x))))"
  using assms(1)
proof (induction ys)
  case Nil
  then show ?case by simp
next
  case (Cons y ys)
  let ?rows = "splitlines (grid x)"
  from Cons.prems have y: "0 \<le> y" "y < int (length ?rows)" by auto
  then have get: "py_getitem ?rows y = Inr (?rows ! nat y)" by (simp add: py_getitem_def)
  have "?rows ! nat y \<in> set ?rows" using y by simp
  with assms(2) have len: "int (length (?rows ! nat y)) = width x" by blast
  have cols: "\<forall>c\<in>set (py_range (width x)). 0 \<le> c \<and> c < int (length (?rows ! nat y))"
    by (simp add: py_range_set len)
  have ih: "find_in_rows x item ys =
           Inr (case List.find (\<lambda>y. List.find (\<lambda>c. [?rows ! nat y ! nat c] = item)
                                     (py_range (width x)) \<noteq> None) ys of
                  None \<Rightarrow> None
                | Some y \<Rightarrow> map_option (\<lambda>c. (c, y))
                    (List.find (\<lambda>c. [?rows ! nat y ! nat c] = item) (py_range (width x))))"
    using Cons by simp
  show ?case
    by (cases "List.find (\<lambda>c. [?rows ! nat y ! nat c] = item) (py_range (width x))")
       (simp_all add: find_in_row_eq [OF get cols] ih)
qed

lemma find_in_row_Some:
  "find_in_row x item y cs = Inr (Some p) \<Longrightarrow> \<exists>c. p = (c, y) \<and> grab x c y = Inr item"
  by (induction cs) (auto split: sum.splits if_splits)

lemma find_in_rows_Some:
  "find_in_rows x item ys = Inr (Some p) \<Longrightarrow> \<exists>c y. p = (c, y) \<and> grab x c y = Inr item"
  by (induction ys) (auto split: sum.splits option.splits dest: find_in_row_Some)

lemma grab_in_grid: "grab x c y = Inr [ch] \<Longrightarrow> ch \<in> set (concat (splitlines (grid x)))"
  by (auto simp: grab_def split: sum.splits dest!: py_getitem_in_set)

lemma find_Some_in_grid:
  "find_grid_item x [ch] = Inr (Some p) \<Longrightarrow> ch \<in> set (concat (splitlines (grid x)))"
  unfolding find_grid_item_def by (blast dest: find_in_rows_Some grab_in_grid)

lemma find_rectangular_total:
  assumes "StringGrid_init g = Inr x" and "rectangular x"
  shows "\<exists>v. find_grid_item x item = Inr v"
proof -
  have g: "grid x = g" and h: "height x = int (length (splitlines g))"
    using assms(1) by (rule init_fields)+
  have rect: "\<forall>row\<in>set (splitlines (grid x)). int (length row) = width x"
    using assms(2) by (simp add: rectangular_def list_all_iff)
  have valid: "\<forall>y\<in>set (py_range (height x)). 0 \<le> y \<and> y < int (length (splitlines (grid x)))"
    by (simp add: py_range_set g h)
  show ?thesis
    unfolding find_grid_item_def using find_in_rows_eq [OF valid rect, of item] by blast
qed

text \<open>
  Claim C5. On a rectangular grid \<open>find_grid_item\<close> never raises. When it returns
  \<open>None\<close> the character occurs in no row. When it returns \<open>(c, r)\<close> the pair is a
  cell of the grid, the cell holds the character, and no cell of an earlier row, and no
  cell further left in row \<open>r\<close>, holds it: the pair is the first match in the order
  rows from the top, columns from the left, whatever matches come later.
\<close>

theorem find_grid_item_row_major:
  assumes "StringGrid_init g = Inr x" and "rectangular x"
  shows "case find_grid_item x [ch] of
           Inl e \<Rightarrow> False
         | Inr None \<Rightarrow> ch \<notin> set (concat (splitlines g))
         | Inr (Some (c, r)) \<Rightarrow>
             0 \<le> r \<and> r < height x \<and> 0 \<le> c \<and> c < width x \<and>
             splitlines g ! nat r ! nat c = ch \<and>
             (\<forall>r' c'. 0 \<le> r' \<and> r' < height x \<and> 0 \<le> c' \<and> c' < width x \<and>
                       (r' < r \<or> (r' = r \<and> c' < c))
                \<longrightarrow> splitlines g ! nat r' ! nat c' \<noteq> ch)"
proof -
  let ?rows = "splitlines g"
  let ?P = "\<lambda>y c. [?rows ! nat y ! nat c] = [ch]"
  let ?Q = "\<lambda>y. List.find (?P y) (py_range (width x)) \<noteq> None"
  have g: "grid x = g" and h: "height x = int (length ?rows)"
    using assms(1) by (rule init_fields)+
  have rect: "\<forall>row\<in>set (splitlines (grid x)). int (length row) = width x"
    using assms(2) by (simp add: rectangular_def list_all_iff)
  have valid: "\<forall>y\<in>set (py_range (height x)). 0 \<le> y \<and> y < int (length (splitlines (grid x)))"
    by (simp add: py_range_set g h)
  have eq: "find_grid_item x [ch] =
      Inr (case List.find ?Q (py_range (height x)) of
             None \<Rightarrow> None
           | Some y \<Rightarrow> map_option (\<lambda>c. (c, y)) (List.find (?P y) (py_range (width x))))"
    unfolding find_grid_item_def by (rule find_in_rows_eq [OF valid rect, of "[ch]", unfolded g])
  have Q_iff: "?Q y \<longleftrightarrow> (\<exists>c. 0 \<le> c \<and> c < width x \<and> ?rows ! nat y ! nat c = ch)" for y
    by (auto simp: find_None_iff py_range_set)
  show ?thesis
  proof (cases "List.find ?Q (py_range (height x))")
    case None
    then have no: "\<not> (\<exists>c. 0 \<le> c \<and> c < width x \<and> ?rows ! nat y ! nat c = ch)"
      if "0 \<le> y" "y < height x" for y
      using that Q_iff [of y] by (simp add: find_None_iff py_range_set)
    have "ch \<notin> set (concat ?rows)"
    proof
      assume "ch \<in> set (concat ?rows)"
      then obtain row where row: "row \<in> set ?rows" "ch \<in> set row" by auto
      from row(1) obtain i where i: "i < length ?rows" "?rows ! i = row"
        by (auto simp: in_set_conv_nth)
      from row(2) obtain j where j: "j < length row" "row ! j = ch"
        by (auto simp: in_set_conv_nth)
      from rect row(1) g have "int (length row) = width x" by simp
      with j have "0 \<le> int j \<and> int j < width x \<and> ?rows ! nat (int i) ! nat (int j) = ch"
        using i by simp
      moreover have "0 \<le> int i" "int i < height x" using i h by simp_all
      ultimately show False using no [of "int i"] by blast
    qed
    with eq None show ?thesis by simp
  next
    case (Some r)
    then obtain i where i: "i < length (py_range (height x))" "?Q (py_range (height x) ! i)"
        "r = py_range (height x) ! i" "\<forall>j<i. \<not> ?Q (py_range (height x) ! j)"
      unfolding find_Some_iff by blast
    have ri: "r = int i" and ih: "i < nat (height x)"
      using i(1,3) by (simp_all add: py_range_length py_range_nth)
    from i(2,3) obtain c where c: "List.find (?P r) (py_range (width x)) = Some c" by auto
    then obtain k where k: "k < length (py_range (width x))" "?P r (py_range (width x) ! k)"
        "c = py_range (width x) ! k" "\<forall>j<k. \<not> ?P r (py_range (width x) ! j)"
      unfolding find_Some_iff by blast
    have ck: "c = int k" and kw: "k < nat (width x)"
      using k(1,3) by (simp_all add: py_range_length py_range_nth)
    have here: "?rows ! nat r ! nat c = ch" using k(2,3) by simp
    have before: "?rows ! nat r' ! nat c' \<noteq> ch"
      if "0 \<le> r'" "r' < height x" "0 \<le> c'" "c' < width x" "r' < r \<or> (r' = r \<and> c' < c)"
      for r' c'
    proof (cases "r' < r")
      case True
      then have "nat r' < i" using ri that(1) by simp
      with i(4) have "\<not> ?Q (py_range (height x) ! nat r')" by blast
      moreover have "py_range (height x) ! nat r' = r'"
        using that(1,2) by (simp add: py_range_nth)
      ultimately have "\<not> ?Q r'" by simp
      then show ?thesis using Q_iff [of r'] that(3,4) by blast
    next
      case False
      with that(5) have eq': "r' = r" and lt: "c' < c" by auto
      then have "nat c' < k" using ck that(3) by simp
      with k(4) have "\<not> ?P r (py_range (width x) ! nat c')" by blast
      moreover have "py_range (width x) ! nat c' = c'"
        using that(3,4) by (simp add: py_range_nth)
      ultimately show ?thesis using eq' by simp
    qed
    have "0 \<le> r \<and> r < height x \<and> 0 \<le> c \<and> c < width x"
      using ri ih ck kw by auto
    with eq Some c here before show ?thesis by simp
  qed
qed

theorem find_grid_item_row_major_witness:
  "StringGrid_init ''.a\<newline>aa'' = Inr \<lparr>grid = ''.a\<newline>aa'', width = 2, height = 2\<rparr> \<and>
   rectangular \<lparr>grid = ''.a\<newline>aa'', width = 2, height = 2\<rparr> \<and>
   find_grid_item \<lparr>grid = ''.a\<newline>aa'', width = 2, height = 2\<rparr> ''a'' = Inr (Some (1, 0)) \<and>
   (case find_grid_item \<lparr>grid = ''.a\<newline>aa'', width = 2, height = 2\<rparr> ''a'' of
      Inl e \<Rightarrow> False
    | Inr None \<Rightarrow> CHR ''a'' \<notin> set (concat (splitlines ''.a\<newline>aa''))
    | Inr (Some (c, r)) \<Rightarrow>
        0 \<le> r \<and> r < height \<lparr>grid = ''.a\<newline>aa'', width = 2, height = 2\<rparr> \<and>
        0 \<le> c \<and> c < width \<lparr>grid = ''.a\<newline>aa'', width = 2, height = 2\<rparr> \<and>
        splitlines ''.a\<newline>aa'' ! nat r ! nat c = CHR ''a'' \<and>
        (\<forall>r' c'. 0 \<le> r' \<and> r' < height \<lparr>grid = ''.a\<newline>aa'', width = 2, height = 2\<rparr> \<and>
                  0 \<le> c' \<and> c' < width \<lparr>grid = ''.a\<newline>aa'', width = 2, height = 2\<rparr> \<and>
                  (r' < r \<or> (r' = r \<and> c' < c))
           \<longrightarrow> splitlines ''.a\<newline>aa'' ! nat r' ! nat c' \<noteq> CHR ''a''))"
proof -
  let ?x = "\<lparr>grid = ''.a\<newline>aa'', width = 2, height = 2\<rparr>"
  have i: "StringGrid_init ''.a\<newline>aa'' = Inr ?x" by code_simp
  have r: "rectangular ?x" by code_simp
  have f: "find_grid_item ?x ''a'' = Inr (Some (1, 0))" by code_simp
  show ?thesis by (intro conjI i r f find_grid_item_row_major [OF i r])
qed

subsection \<open>look\<close>

lemma walk_udlr:
  "set path \<subseteq> {CHR ''U'', CHR ''D'', CHR ''L'', CHR ''R''} \<Longrightarrow>
   walk (c0, r0) path =
     Inr (c0 + int (count_list path CHR ''R'') - int (count_list path CHR ''L''),
          r0 + int (count_list path CHR ''D'') - int (count_list path CHR ''U''))"
  by (induction path arbitrary: c0 r0) auto

text \<open>
  Claim C10. When the character occurs nowhere in the grid, \<open>look\<close> raises, for
  every path: it returns neither a character nor \<open>OOB\<close>. The result is the one for the
  empty path, so the path has no part in it, not even a letter that \<open>walk\<close> would
  refuse. On a rectangular grid the error is the \<^verbatim>\<open>TypeError\<close> of \<^verbatim>\<open>list(None)\<close>.
\<close>

theorem look_absent_character:
  assumes "StringGrid_init g = Inr x" and "ch \<notin> set (concat (splitlines g))"
  shows "(\<exists>e. look x [ch] path = Inl e) \<and> look x [ch] path = look x [ch] [] \<and>
         (rectangular x \<longrightarrow> look x [ch] path = Inl TypeError)"
proof -
  have g: "grid x = g" using assms(1) by (rule init_fields)
  have no: "find_grid_item x [ch] \<noteq> Inr (Some p)" for p
    using find_Some_in_grid [of x ch p] assms(2) g by auto
  show ?thesis
  proof (cases "find_grid_item x [ch]")
    case (Inl e)
    moreover have "\<not> rectangular x"
      using find_rectangular_total [OF assms(1), of "[ch]"] Inl by auto
    ultimately show ?thesis by (simp add: look_def)
  next
    case (Inr v)
    with no have "v = None" by (cases v) auto
    with Inr show ?thesis by (simp add: look_def)
  qed
qed

theorem look_absent_character_witness:
  "StringGrid_init ''X.\<newline>..'' = Inr \<lparr>grid = ''X.\<newline>..'', width = 2, height = 2\<rparr> \<and>
   CHR ''Y'' \<notin> set (concat (splitlines ''X.\<newline>..'')) \<and>
   rectangular \<lparr>grid = ''X.\<newline>..'', width = 2, height = 2\<rparr> \<and>
   look \<lparr>grid = ''X.\<newline>..'', width = 2, height = 2\<rparr> ''Y'' ''Rx'' = Inl TypeError"
proof -
  let ?x = "\<lparr>grid = ''X.\<newline>..'', width = 2, height = 2\<rparr>"
  have i: "StringGrid_init ''X.\<newline>..'' = Inr ?x" by code_simp
  have a: "CHR ''Y'' \<notin> set (concat (splitlines ''X.\<newline>..''))" by code_simp
  have r: "rectangular ?x" by code_simp
  from look_absent_character [OF i a, of "''Rx''"] r
  have "look ?x ''Y'' ''Rx'' = Inl TypeError" by blast
  with i a r show ?thesis by blast
qed

text \<open>
  What \<open>look\<close> does on a rectangular grid, for a path of the letters U, D, L, R. The
  result depends on the final coordinate only: the start moved by the number of R less
  the number of L in the column, and by the number of D less the number of U in the
  row, whatever the positions on the way. A final coordinate with a column outside
  \<open>[0, width]\<close> or a row outside \<open>[0, height]\<close> gives \<open>OOB\<close>; one with
  \<open>0 \<le> col < width\<close> and \<open>0 \<le> row < height\<close> gives the character of that cell;
  one that passes the test with the column equal to the width, or the row equal to the
  height, makes \<open>grab\<close> raise \<^verbatim>\<open>IndexError\<close>.
\<close>

lemma look_final_coordinate:
  assumes "StringGrid_init g = Inr x" and "rectangular x"
    and "find_grid_item x [ch] = Inr (Some (c0, r0))"
    and "set path \<subseteq> {CHR ''U'', CHR ''D'', CHR ''L'', CHR ''R''}"
    and "fc = c0 + int (count_list path CHR ''R'') - int (count_list path CHR ''L'')"
    and "fr = r0 + int (count_list path CHR ''D'') - int (count_list path CHR ''U'')"
  shows "(fc < 0 \<or> width x < fc \<or> fr < 0 \<or> height x < fr \<longrightarrow> look x [ch] path = Inr ''OOB'') \<and>
         (0 \<le> fc \<and> fc < width x \<and> 0 \<le> fr \<and> fr < height x \<longrightarrow>
            look x [ch] path = Inr [splitlines g ! nat fr ! nat fc]) \<and>
         (0 \<le> fc \<and> fc \<le> width x \<and> 0 \<le> fr \<and> fr \<le> height x \<and>
          (fc = width x \<or> fr = height x) \<longrightarrow> look x [ch] path = Inl IndexError)"
proof -
  have w: "walk (c0, r0) path = Inr (fc, fr)"
    using walk_udlr [OF assms(4)] assms(5,6) by simp
  have inside: "grab x fc fr = Inr [splitlines g ! nat fr ! nat fc]"
    if "0 \<le> fc" "fc < width x" "0 \<le> fr" "fr < height x"
    using grab_rectangular [OF assms(1,2), of fc fr] that by simp
  have edge: "grab x fc fr = Inl IndexError" if "fc = width x \<or> fr = height x"
    using grab_rectangular [OF assms(1,2), of fc fr] that by auto
  have a: "fc < 0 \<or> width x < fc \<or> fr < 0 \<or> height x < fr \<longrightarrow> look x [ch] path = Inr ''OOB''"
    by (auto simp: look_def assms(3) w)
  have b: "0 \<le> fc \<and> fc < width x \<and> 0 \<le> fr \<and> fr < height x \<longrightarrow>
            look x [ch] path = Inr [splitlines g ! nat fr ! nat fc]"
    using inside by (auto simp: look_def assms(3) w)
  have c: "0 \<le> fc \<and> fc \<le> width x \<and> 0 \<le> fr \<and> fr \<le> height x \<and>
          (fc = width x \<or> fr = height x) \<longrightarrow> look x [ch] path = Inl IndexError"
    using edge by (auto simp: look_def assms(3) w)
  from a b c show ?thesis by blast
qed

lemma look_final_coordinate_example:
  "StringGrid_init ''..X\<newline>.a.\<newline>...'' =
     Inr \<lparr>grid = ''..X\<newline>.a.\<newline>...'', width = 3, height = 3\<rparr> \<and>
   rectangular \<lparr>grid = ''..X\<newline>.a.\<newline>...'', width = 3, height = 3\<rparr> \<and>
   find_grid_item \<lparr>grid = ''..X\<newline>.a.\<newline>...'', width = 3, height = 3\<rparr> ''X'' = Inr (Some (2, 0)) \<and>
   look \<lparr>grid = ''..X\<newline>.a.\<newline>...'', width = 3, height = 3\<rparr> ''X'' ''UDLD'' = Inr ''a''"
proof -
  let ?x = "\<lparr>grid = ''..X\<newline>.a.\<newline>...'', width = 3, height = 3\<rparr>"
  have i: "StringGrid_init ''..X\<newline>.a.\<newline>...'' = Inr ?x" by code_simp
  have r: "rectangular ?x" by code_simp
  have f: "find_grid_item ?x ''X'' = Inr (Some (2, 0))" by code_simp
  have p: "set ''UDLD'' \<subseteq> {CHR ''U'', CHR ''D'', CHR ''L'', CHR ''R''}" by simp
  have c: "(1::int) = 2 + int (count_list ''UDLD'' CHR ''R'') - int (count_list ''UDLD'' CHR ''L'')"
    by simp
  have d: "(1::int) = 0 + int (count_list ''UDLD'' CHR ''D'') - int (count_list ''UDLD'' CHR ''U'')"
    by simp
  have cell: "splitlines ''..X\<newline>.a.\<newline>...'' ! nat 1 ! nat 1 = CHR ''a''" by code_simp
  from look_final_coordinate [OF i r f p c d] cell
  have "look ?x ''X'' ''UDLD'' = Inr ''a''" by simp
  with i r f show ?thesis by simp
qed

text \<open>
  Claim C4. The test of \<open>look\<close> after the loop is strict (\<^verbatim>\<open>ch[0] > x.width\<close>), where the
  test of \<open>swipe\<close> is not (\<^verbatim>\<open>new_y >= w\<close>): a final column equal to the width, or a final
  row equal to the height, passes it. At such a coordinate the access does not succeed.
  On the 2 by 2 grid with \<open>X\<close> in the corner, the path \<open>RR\<close> ends in column 2 and
  the path \<open>DD\<close> in row 2; both pass the test, and \<open>look\<close> returns neither a
  character nor \<open>OOB\<close>: \<open>grab\<close> raises \<^verbatim>\<open>IndexError\<close>.
\<close>

theorem look_boundary_raises:
  "StringGrid_init ''X.\<newline>..'' = Inr \<lparr>grid = ''X.\<newline>..'', width = 2, height = 2\<rparr> \<and>
   find_grid_item \<lparr>grid = ''X.\<newline>..'', width = 2, height = 2\<rparr> ''X'' = Inr (Some (0, 0)) \<and>
   look \<lparr>grid = ''X.\<newline>..'', width = 2, height = 2\<rparr> ''X'' ''RR'' = Inl IndexError \<and>
   look \<lparr>grid = ''X.\<newline>..'', width = 2, height = 2\<rparr> ''X'' ''DD'' = Inl IndexError"
  by code_simp

subsection \<open>swipe\<close>




text \<open>
  Claim C1. On the 3 by 3 grid whose only \<open>X\<close> is in column 2 of row 0,
  \<open>find_grid_item\<close> returns \<open>(2, 0)\<close> and \<open>swipe\<close> with direction \<open>up\<close> passes
  its bounds test, but the text it returns still has the \<open>X\<close> in its cell and has a
  second \<open>X\<close> in column 0 of row 1: \<open>swipe\<close> uses the column of the located pair
  as a row index and its row as a column index.
\<close>

theorem swipe_off_diagonal:
  "StringGrid_init ''..X\<newline>...\<newline>...'' =
     Inr \<lparr>grid = ''..X\<newline>...\<newline>...'', width = 3, height = 3\<rparr> \<and>
   find_grid_item \<lparr>grid = ''..X\<newline>...\<newline>...'', width = 3, height = 3\<rparr> ''X'' = Inr (Some (2, 0)) \<and>
   swipe \<lparr>grid = ''..X\<newline>...\<newline>...'', width = 3, height = 3\<rparr> ''X'' ''up'' ''.'' =
     Inr ''..X\<newline>X..\<newline>...''"
  by code_simp











section \<open>Properties of the sequence helpers\<close>

text \<open>
  Claim C9. \<open>take_while\<close> yields a prefix of its input, every yielded item satisfies
  the condition, and the input item right after the prefix, if there is one, fails
  it: the yielded list is the longest prefix whose items all satisfy the condition, and
  nothing after the first failing item is yielded. On \<open>[1, 2, 3, 10, 4]\<close> with the
  condition \<open>v < 5\<close> it yields \<open>[1, 2, 3]\<close>.
\<close>

theorem take_while_maximal_prefix:
  "(\<exists>rest. xs = take_while xs p @ rest \<and> list_all p (take_while xs p) \<and>
      (case rest of [] \<Rightarrow> True | y # _ \<Rightarrow> \<not> p y)) \<and>
   take_while [1, 2, 3, 10, 4 :: int] (\<lambda>v. v < 5) = [1, 2, 3]"
proof
  show "\<exists>rest. xs = take_while xs p @ rest \<and> list_all p (take_while xs p) \<and>
      (case rest of [] \<Rightarrow> True | y # _ \<Rightarrow> \<not> p y)"
  proof (induction xs)
    case Nil
    then show ?case by simp
  next
    case (Cons a xs)
    show ?case
    proof (cases "p a")
      case True
      from Cons obtain rest where "xs = take_while xs p @ rest" "list_all p (take_while xs p)"
        "(case rest of [] \<Rightarrow> True | y # _ \<Rightarrow> \<not> p y)" by blast
      with True show ?thesis by auto
    next
      case False
      then show ?thesis by simp
    qed
  qed
  show "take_while [1, 2, 3, 10, 4 :: int] (\<lambda>v. v < 5) = [1, 2, 3]" by simp
qed

theorem take_while_maximal_prefix_witness:
  "(\<exists>rest. [7, 1, 9 :: nat] = take_while [7, 1, 9] (\<lambda>v. 5 < v) @ rest \<and>
      list_all (\<lambda>v. (5 :: nat) < v) (take_while [7, 1, 9 :: nat] (\<lambda>v. 5 < v)) \<and>
      (case rest of [] \<Rightarrow> True | y # _ \<Rightarrow> \<not> 5 < y)) \<and>
   take_while [7, 1, 9 :: nat] (\<lambda>v. 5 < v) = [7]"
  using take_while_maximal_prefix [of "[7, 1, 9 :: nat]" "\<lambda>v. 5 < v"] by simp

lemma convert_flags_length: "length (snd (convert_flags m)) = length m"
  by (induction m) (auto split: sum.splits prod.splits)

lemma convert_flags_None:
  "convert_flags m = (None, m') \<Longrightarrow>
   list_all2 (\<lambda>v v'. \<exists>n. py_int v = Inr n \<and> v' = PInt n) m m'"
  by (induction m arbitrary: m') (auto split: sum.splits prod.splits)

lemma convert_flags_ints:
  "\<forall>v\<in>set m. \<exists>n. v = PInt n \<Longrightarrow> convert_flags m = (None, m)"
  by (induction m) auto

lemma select_snd:
  "snd (select x m) = (if length m = py_len x then snd (convert_flags m) else m)"
  by (auto simp: select_def split: prod.splits option.splits sum.splits)

lemma select_returns:
  "select x m = (Inr r, m') \<Longrightarrow> length m = py_len x \<Longrightarrow> convert_flags m = (None, m')"
  by (auto simp: select_def split: prod.splits option.splits sum.splits)

lemma gather_text_ints:
  "length s = length ns \<Longrightarrow>
   gather (map (\<lambda>c. PStr [c]) s) (map PInt ns) =
     Inr (map fst (filter (\<lambda>(c, n). n \<ge> 1) (zip s ns)))"
  by (induction s ns rule: list_induct2) auto

text \<open>
  On a text with a mask of integers of its length, \<open>select\<close> returns the characters
  whose flag is at least 1, in their order.
\<close>

lemma select_text_ints:
  assumes "length ns = length s"
  shows "select (Text s) (map PInt ns) =
           (Inr (Selected (Text (map fst (filter (\<lambda>(c, n). n \<ge> 1) (zip s ns))))), map PInt ns)"
proof -
  have c: "convert_flags (map PInt ns) = (None, map PInt ns)"
    by (rule convert_flags_ints) auto
  have g: "gather (map (\<lambda>c. PStr [c]) s) (map PInt ns) =
             Inr (map fst (filter (\<lambda>(c, n). n \<ge> 1) (zip s ns)))"
    using assms by (intro gather_text_ints) simp
  show ?thesis using assms by (simp add: select_def py_len_def c g)
qed

text \<open>
  Claim C7. With a mask of another length than the sequence, \<open>select\<close> does not
  raise: it returns an \<^verbatim>\<open>IndexError\<close> object as its value. On the text \<open>ab\<close> with
  the one-flag mask \<open>[1]\<close> the result is \<open>Inr\<close> of that object, where a raised
  error would be \<open>Inl IndexError\<close>. With lengths that match, \<open>select\<close> on the
  list \<open>[1, 2, 3]\<close> and the mask \<open>[0, 1, 0]\<close> returns \<open>[1]\<close>, not the selected
  item \<open>2\<close>: the loop after \<^verbatim>\<open>type(x)(p)\<close> overwrites the result with the first
  items of the input.
\<close>

theorem select_length_mismatch_returns:
  "select (Text ''ab'') [PInt 1] =
     (Inr (ExcInstance IndexError ''Length of matches not length of x''), [PInt 1]) \<and>
   select (ListOf [PInt 1, PInt 2, PInt 3]) [PInt 0, PInt 1, PInt 0] =
     (Inr (Selected (ListOf [PInt 1])), [PInt 0, PInt 1, PInt 0])"
  by code_simp

text \<open>
  Claim C8, as the code has it. \<open>select\<close> leaves the mask at its length. A mask of
  another length than the sequence is left as it was. When the lengths match and
  \<open>select\<close> returns, every flag has been replaced by the integer \<^verbatim>\<open>int(flag)\<close>. A
  mask that holds integers only is therefore left equal to what it was.
\<close>

theorem select_mask_effect:
  assumes "select x matches = (res, matches')"
  shows "length matches' = length matches \<and>
         (length matches \<noteq> py_len x \<longrightarrow> matches' = matches) \<and>
         (length matches = py_len x \<and> (\<exists>r. res = Inr r) \<longrightarrow>
            list_all2 (\<lambda>v v'. \<exists>n. py_int v = Inr n \<and> v' = PInt n) matches matches') \<and>
         ((\<forall>v\<in>set matches. \<exists>n. v = PInt n) \<longrightarrow> matches' = matches)"
proof -
  have snd: "matches' = (if length matches = py_len x then snd (convert_flags matches) else matches)"
    using select_snd [of x matches] assms by simp
  have a: "length matches' = length matches"
    by (simp add: snd convert_flags_length)
  have b: "length matches \<noteq> py_len x \<longrightarrow> matches' = matches"
    by (simp add: snd)
  have c: "length matches = py_len x \<and> (\<exists>r. res = Inr r) \<longrightarrow>
            list_all2 (\<lambda>v v'. \<exists>n. py_int v = Inr n \<and> v' = PInt n) matches matches'"
    using assms by (auto dest: select_returns convert_flags_None)
  have d: "(\<forall>v\<in>set matches. \<exists>n. v = PInt n) \<longrightarrow> matches' = matches"
    by (simp add: snd convert_flags_ints)
  from a b c d show ?thesis by blast
qed

theorem select_mask_effect_witness:
  "select (Text ''ab'') [PBool True, PStr ''0''] = (Inr (Selected (Text ''a'')), [PInt 1, PInt 0]) \<and>
   length [PInt 1, PInt 0] = length [PBool True, PStr ''0''] \<and>
   list_all2 (\<lambda>v v'. \<exists>n. py_int v = Inr n \<and> v' = PInt n) [PBool True, PStr ''0''] [PInt 1, PInt 0]"
proof -
  have s: "select (Text ''ab'') [PBool True, PStr ''0''] = (Inr (Selected (Text ''a'')), [PInt 1, PInt 0])"
    by code_simp
  have l: "length [PBool True, PStr ''0''] = py_len (Text ''ab'')" by code_simp
  from select_mask_effect [OF s] l s show ?thesis by blast
qed

text \<open>
  The claim as the specification words it has the mask unchanged after every call. On
  the text \<open>ab\<close> with the mask of the text \<open>1\<close> and the boolean \<^verbatim>\<open>False\<close>, the
  mask after the call holds the integers 1 and 0.
\<close>

theorem select_changes_mask:
  "select (Text ''ab'') [PStr ''1'', PBool False] = (Inr (Selected (Text ''a'')), [PInt 1, PInt 0]) \<and>
   [PInt 1, PInt 0] \<noteq> [PStr ''1'', PBool False]"
  by code_simp

end
